theory Spec2Isabelle
  imports Complex_Main
begin

section \<open>Errors and runtime primitives\<close>

text \<open>
  The functions of \<^verbatim>\<open>keras/backend/mlx/image.py\<close> are embedded as HOL functions.
  A raised exception is a value of \<open>error\<close>; a result is \<open>error + 'a\<close> with
  \<open>Inl\<close> for the failure.  Index arrays hold integers and are modelled elementwise on
  \<open>int\<close>; floating-point arrays are modelled elementwise on \<open>real\<close>, without rounding
  error, infinities or NaN.

  \<open>ValueError\<close>, \<open>NotImplementedError\<close>, \<open>ZeroDivisionError\<close>, \<open>TypeError\<close> and
  \<open>KeyError\<close> are the Python exceptions the source raises.  The other two mark a
  computation for which the array runtime defines no value that this embedding could
  return:
  \<^item> \<open>UndefinedRemainder\<close>: the integer remainder taken with divisor zero;
  \<^item> \<open>OutOfBoundsGather\<close>: a gather with an index outside the indexed axis.
\<close>

datatype error =
    ValueError
  | NotImplementedError
  | ZeroDivisionError
  | UndefinedRemainder
  | OutOfBoundsGather
  | TypeError
  | KeyError

text \<open>
  Modelled from the spec: the array runtime's \<^verbatim>\<open>%\<close> on integer arrays (``true modulo,
  result always non-negative, even for negative input''), elementwise, against a scalar
  divisor.  The divisor zero has no defined result.
\<close>

definition remainder :: "int \<Rightarrow> int \<Rightarrow> error + int" where
  "remainder a b = (if b = 0 then Inl UndefinedRemainder else Inr (a mod b))"

text \<open>Modelled from the spec: \<^verbatim>\<open>mx.clip(a, lo, hi)\<close>, clamp to \<open>[lo, hi]\<close>.\<close>

definition clip :: "int \<Rightarrow> int \<Rightarrow> int \<Rightarrow> int" where
  "clip a lo hi = min (max a lo) hi"

section \<open>BoundaryPolicy: the index fixers\<close>

text \<open>
  \<^verbatim>\<open>
  def _mirror_index_fixer(index, size):
      s = size - 1
      return mx.abs((index + s) % (2 * s) - s)
  \<close>
\<close>

definition mirror_index_fixer :: "int \<Rightarrow> int \<Rightarrow> error + int" where
  "mirror_index_fixer index sz =
     (let s = sz - 1 in
      case remainder (index + s) (2 * s) of
        Inl e \<Rightarrow> Inl e
      | Inr r \<Rightarrow> Inr (abs (r - s)))"

text \<open>
  \<^verbatim>\<open>
  def _reflect_index_fixer(index, size):
      return mx.floor_divide(
          _mirror_index_fixer(2 * index + 1, 2 * size + 1) - 1, 2)
  \<close>
\<close>

definition reflect_index_fixer :: "int \<Rightarrow> int \<Rightarrow> error + int" where
  "reflect_index_fixer index sz =
     (case mirror_index_fixer (2 * index + 1) (2 * sz + 1) of
        Inl e \<Rightarrow> Inl e
      | Inr m \<Rightarrow> Inr ((m - 1) div 2))"

text \<open>The dictionary \<^verbatim>\<open>_INDEX_FIXERS\<close>, keyed by the fill mode.\<close>

definition INDEX_FIXERS :: "string \<Rightarrow> (int \<Rightarrow> int \<Rightarrow> error + int) option" where
  "INDEX_FIXERS fill_mode =
     (if fill_mode = ''constant'' then Some (\<lambda>index sz. Inr (clip index 0 (sz - 1)))
      else if fill_mode = ''nearest'' then Some (\<lambda>index sz. Inr (clip index 0 (sz - 1)))
      else if fill_mode = ''wrap'' then Some (\<lambda>index sz. remainder index sz)
      else if fill_mode = ''mirror'' then Some mirror_index_fixer
      else if fill_mode = ''reflect'' then Some reflect_index_fixer
      else None)"


section \<open>Arrays\<close>

datatype dtype =
    Bool | UInt8 | UInt16 | UInt32 | UInt64
  | Int8 | Int16 | Int32 | Int64
  | Float16 | Float32 | BFloat16

text \<open>
  A dense array: its element type, its shape, and its elements by multi-index.  Only the
  elements at multi-indices inside the shape are meaningful.  Elements are reals; an
  integer-typed array holds integers of the range of its type (see \<open>astype\<close>), and the
  finite precision of a floating-point type is not modelled.
\<close>

record array =
  dtype :: dtype
  shape :: "nat list"
  elems :: "nat list \<Rightarrow> real"

definition ndim :: "array \<Rightarrow> nat" where
  "ndim a = length (shape a)"

text \<open>All multi-indices of a shape, in row-major order.\<close>

definition positions :: "nat list \<Rightarrow> nat list list" where
  "positions shp = product_lists (map (\<lambda>n. [0..<n]) shp)"

text \<open>
  \<^verbatim>\<open>
  def _is_integer(a):
      return to_mlx_dtype(a.dtype) in (
          mx.int32, mx.uint32, mx.int64, mx.uint64,
          mx.int16, mx.uint16, mx.int8, mx.uint8)
  \<close>
\<close>

definition is_integer_dtype :: "dtype \<Rightarrow> bool" where
  "is_integer_dtype d \<longleftrightarrow> d \<in> set [Int32, UInt32, Int64, UInt64, Int16, UInt16, Int8, UInt8]"

definition is_integer :: "array \<Rightarrow> bool" where
  "is_integer a = is_integer_dtype (dtype a)"

text \<open>
  The element type of an intermediate result matters to the source in one place only,
  \<^verbatim>\<open>_is_integer(result)\<close>; the embedding therefore tracks the kind of an element type,
  with the runtime's promotion on kinds: the larger of the two.  A Python \<^verbatim>\<open>int\<close>
  scalar counts as \<open>KInt\<close>, a Python \<^verbatim>\<open>float\<close> as \<open>KFloat\<close>.
\<close>

datatype kind = KBool | KInt | KFloat

definition kind_of :: "dtype \<Rightarrow> kind" where
  "kind_of d = (if d = Bool then KBool else if is_integer_dtype d then KInt else KFloat)"

fun promote :: "kind \<Rightarrow> kind \<Rightarrow> kind" where
  "promote KFloat _ = KFloat"
| "promote _ KFloat = KFloat"
| "promote KInt _ = KInt"
| "promote _ KInt = KInt"
| "promote KBool KBool = KBool"

text \<open>A typed element of an intermediate array: the kind of the array and the value.\<close>

type_synonym tval = "kind \<times> real"

text \<open>
  Modelled from the spec: broadcasting of the array runtime (``trailing-dimension
  alignment with size-1 expansion'').  \<open>broadcast_shapes\<close> is the common shape, if there is
  one; \<open>broadcast_at a p\<close> reads \<open>a\<close> at the multi-index \<open>p\<close> of a shape that \<open>a\<close>
  broadcasts to.
\<close>

definition broadcast_dim :: "nat \<Rightarrow> nat \<Rightarrow> nat option" where
  "broadcast_dim a b =
     (if a = b then Some a else if a = 1 then Some b else if b = 1 then Some a else None)"

definition pad_left :: "nat \<Rightarrow> nat list \<Rightarrow> nat list" where
  "pad_left n shp = replicate (n - length shp) 1 @ shp"

definition broadcast_shapes :: "nat list \<Rightarrow> nat list \<Rightarrow> nat list option" where
  "broadcast_shapes a b =
     (let n = max (length a) (length b)
      in those (map2 broadcast_dim (pad_left n a) (pad_left n b)))"

fun broadcast_all :: "nat list list \<Rightarrow> nat list option" where
  "broadcast_all [] = Some []"
| "broadcast_all (s # ss) =
     (case broadcast_all ss of
        None \<Rightarrow> None
      | Some b \<Rightarrow> broadcast_shapes s b)"

definition broadcast_at :: "array \<Rightarrow> nat list \<Rightarrow> real" where
  "broadcast_at a p =
     elems a (map2 (\<lambda>n i. if n = 1 then 0 else i) (shape a) (drop (length p - ndim a) p))"

text \<open>
  Modelled from the spec: \<^verbatim>\<open>mx.round\<close> rounds to the nearest integer, a tie to the even
  one as the runtime does; \<^verbatim>\<open>mx.floor\<close>; Python's \<^verbatim>\<open>int(x)\<close> drops the fractional part
  (truncation toward zero) and is unbounded.
\<close>

definition mx_round :: "real \<Rightarrow> real" where
  "mx_round x =
     (let f = \<lfloor>x\<rfloor>; d = x - of_int f
      in if d < 1 / 2 then of_int f
         else if 1 / 2 < d then of_int (f + 1)
         else if even f then of_int f else of_int (f + 1))"

definition mx_floor :: "real \<Rightarrow> real" where
  "mx_floor x = of_int \<lfloor>x\<rfloor>"

definition truncate :: "real \<Rightarrow> int" where
  "truncate x = (if 0 \<le> x then \<lfloor>x\<rfloor> else \<lceil>x\<rceil>)"

text \<open>
  The integer element types have 8 to 64 bits, signed or unsigned.  Modelled from the
  spec (``cast the final sum to \<open>source\<close>'s dtype''): \<^verbatim>\<open>astype(d)\<close> to an integer type drops
  the fractional part and keeps the low bits of the result, so that a value outside the
  range of the type wraps around (two's complement); to \<^verbatim>\<open>bool\<close> it tests against zero;
  to a floating-point type it is the identity on the reals.
\<close>

fun bits :: "dtype \<Rightarrow> nat" where
  "bits UInt8 = 8" | "bits Int8 = 8"
| "bits UInt16 = 16" | "bits Int16 = 16"
| "bits UInt32 = 32" | "bits Int32 = 32"
| "bits UInt64 = 64" | "bits Int64 = 64"
| "bits Bool = 1" | "bits Float16 = 16" | "bits BFloat16 = 16" | "bits Float32 = 32"

definition is_signed :: "dtype \<Rightarrow> bool" where
  "is_signed d \<longleftrightarrow> d \<in> set [Int8, Int16, Int32, Int64]"

definition wrap :: "dtype \<Rightarrow> int \<Rightarrow> int" where
  "wrap d z =
     (if is_signed d then (z + 2 ^ (bits d - 1)) mod 2 ^ bits d - 2 ^ (bits d - 1)
      else z mod 2 ^ bits d)"

definition astype :: "dtype \<Rightarrow> real \<Rightarrow> real" where
  "astype d x =
     (if is_integer_dtype d then of_int (wrap d (truncate x))
      else if d = Bool then (if x = 0 then 0 else 1)
      else x)"

text \<open>\<^verbatim>\<open>a.astype(mx.int32)\<close> as an index, and the sum of two \<^verbatim>\<open>int32\<close> values.\<close>

definition to_int32 :: "real \<Rightarrow> int" where
  "to_int32 x = wrap Int32 (truncate x)"

definition add_int32 :: "int \<Rightarrow> int \<Rightarrow> int" where
  "add_int32 a b = wrap Int32 (a + b)"

text \<open>
  \<^verbatim>\<open>a.transpose(axes)\<close>: axis \<open>i\<close> of the result is axis \<open>axes ! i\<close> of \<open>a\<close>.
\<close>

fun position_of :: "nat \<Rightarrow> nat list \<Rightarrow> nat" where
  "position_of j [] = 0"
| "position_of j (a # as) = (if a = j then 0 else Suc (position_of j as))"

definition transpose_axes :: "nat list \<Rightarrow> array \<Rightarrow> array" where
  "transpose_axes axes a =
     \<lparr>dtype = dtype a,
      shape = map (\<lambda>i. shape a ! i) axes,
      elems = (\<lambda>p. elems a (map (\<lambda>j. p ! position_of j axes) [0..<length axes]))\<rparr>"

section \<open>InterpolationKernel\<close>

text \<open>
  A weight is the Python scalar \<open>1\<close> of the nearest kernel or an element of a weight
  array of the linear kernel.  A kernel is applied to one element of a coordinate array,
  given with the element type of that array, and returns its candidates.
\<close>

datatype weight = PyScalar int | MxArray kind real

type_synonym coordinate = "dtype \<times> real"

text \<open>
  \<^verbatim>\<open>
  def _nearest_indices_and_weights(coordinate):
      coordinate = coordinate if _is_integer(coordinate) else mx.round(coordinate)
      index = coordinate.astype(mx.int32)
      return [(index, 1)]
  \<close>
\<close>

definition nearest_indices_and_weights :: "coordinate \<Rightarrow> (int \<times> weight) list" where
  "nearest_indices_and_weights c =
     (let coordinate = (if is_integer_dtype (fst c) then snd c else mx_round (snd c));
          index = to_int32 coordinate
      in [(index, PyScalar 1)])"

text \<open>
  \<^verbatim>\<open>
  def _linear_indices_and_weights(coordinate):
      lower = mx.floor(coordinate)
      upper_weight = coordinate - lower
      lower_weight = 1 - upper_weight
      index = lower.astype(mx.int32)
      return [(index, lower_weight), (index + 1, upper_weight)]
  \<close>
\<close>

definition linear_indices_and_weights :: "coordinate \<Rightarrow> (int \<times> weight) list" where
  "linear_indices_and_weights c =
     (let lower = mx_floor (snd c);
          upper_weight = snd c - lower;
          lower_weight = 1 - upper_weight;
          index = to_int32 lower
      in [(index, MxArray (promote KInt (kind_of (fst c))) lower_weight),
          (add_int32 index 1, MxArray (kind_of (fst c)) upper_weight)])"

section \<open>Resampler\<close>

text \<open>The fill value: a Python \<^verbatim>\<open>int\<close>, a Python \<^verbatim>\<open>float\<close>, or a scalar array.\<close>

datatype fill = PyInt int | PyFloat real | FillArray dtype real

fun fill_tval :: "fill \<Rightarrow> tval" where
  "fill_tval (PyInt i) = (KInt, of_int i)"
| "fill_tval (PyFloat x) = (KFloat, x)"
| "fill_tval (FillArray d x) = (kind_of d, x)"

text \<open>Elementwise \<^verbatim>\<open>mx.where\<close>, product with a weight, and sum, on typed elements.\<close>

definition mx_where :: "bool \<Rightarrow> tval \<Rightarrow> tval \<Rightarrow> tval" where
  "mx_where c x y = (promote (fst x) (fst y), if c then snd x else snd y)"

fun weight_mul :: "weight \<Rightarrow> weight \<Rightarrow> weight" where
  "weight_mul (PyScalar a) (PyScalar b) = PyScalar (a * b)"
| "weight_mul (PyScalar a) (MxArray k y) = MxArray (promote KInt k) (of_int a * y)"
| "weight_mul (MxArray k x) (PyScalar b) = MxArray (promote k KInt) (x * of_int b)"
| "weight_mul (MxArray k x) (MxArray l y) = MxArray (promote k l) (x * y)"

fun times_weight :: "tval \<Rightarrow> weight \<Rightarrow> tval" where
  "times_weight (k, x) (PyScalar a) = (promote k KInt, x * of_int a)"
| "times_weight (k, x) (MxArray l y) = (promote k l, x * y)"

definition tval_add :: "tval \<Rightarrow> tval \<Rightarrow> tval" where
  "tval_add x y = (promote (fst x) (fst y), snd x + snd y)"

text \<open>\<^verbatim>\<open>isinstance(weight, (float, int)) and weight == 1\<close>\<close>

fun is_python_one :: "weight \<Rightarrow> bool" where
  "is_python_one (PyScalar a) = (a = 1)"
| "is_python_one (MxArray k x) = False"

text \<open>
  \<^verbatim>\<open>functools.reduce(f, xs)\<close>; on an empty sequence it raises \<^verbatim>\<open>TypeError\<close>.
\<close>

fun reduce :: "('a \<Rightarrow> 'a \<Rightarrow> 'a) \<Rightarrow> 'a list \<Rightarrow> error + 'a" where
  "reduce f (x # xs) = Inr (foldl f x xs)"
| "reduce f [] = Inl TypeError"

text \<open>Sequencing of two fallible steps: the first failure is the result.\<close>

definition and_then :: "error + 'a \<Rightarrow> ('a \<Rightarrow> error + 'b) \<Rightarrow> error + 'b" where
  "and_then r f = (case r of Inl e \<Rightarrow> Inl e | Inr x \<Rightarrow> f x)"

text \<open>The first error of a list of results, or all their values.\<close>

fun collect :: "(error + 'a) list \<Rightarrow> error + 'a list" where
  "collect [] = Inr []"
| "collect (Inl e # rs) = Inl e"
| "collect (Inr x # rs) = (case collect rs of Inl e \<Rightarrow> Inl e | Inr xs \<Rightarrow> Inr (x # xs))"

text \<open>
  One element of \<^verbatim>\<open>src[index]\<close>: the element of \<open>src\<close> at the fixed indices of a
  combination, followed by the multi-index \<open>rest\<close> into the axes that are not indexed.
\<close>

definition gather :: "array \<Rightarrow> int list \<Rightarrow> nat list \<Rightarrow> error + tval" where
  "gather src index rest =
     (if list_all2 (\<lambda>i n. 0 \<le> i \<and> i < int n) index (take (length index) (shape src))
      then Inr (kind_of (dtype src), elems src (map nat index @ rest))
      else Inl OutOfBoundsGather)"

text \<open>
  \<^verbatim>\<open>
  def _expand(x):
      if not isinstance(x, mx.array):
          return x
      return x.reshape(*x.shape, *([1] * (src.ndim - x.ndim)))
  \<close>
  on an array derived elementwise from a coordinate array \<open>x\<close>: the same elements, with
  unit axes appended up to the rank \<open>r\<close> of \<open>src\<close>.
\<close>

definition expand :: "nat \<Rightarrow> array \<Rightarrow> array" where
  "expand r x =
     \<lparr>dtype = dtype x, shape = shape x @ replicate (r - ndim x) 1,
      elems = (\<lambda>p. elems x (take (ndim x) p))\<rparr>"

text \<open>
  The candidates of one coordinate axis, at one output element:
  \<^verbatim>\<open>
  [(index_fixer(index, size),
    _expand(mx.logical_and((0 <= index), (index < size))),
    _expand(weight))
   for index, weight in interpolation_function(ci)]
  \<close>
  The fixed index array has the shape of the coordinate array and is read where the
  gather reads it; the mask and the weight have the shape that \<^verbatim>\<open>_expand\<close> gives them and
  are read where the broadcast against the gathered block reads them.  \<open>ci\<close> is the element
  of the coordinate array at the first place, \<open>ce\<close> the element at the second; the two are
  the same element whenever the expanded shape lines up with the gathered block.
\<close>

type_synonym candidate = "int \<times> bool \<times> weight"

definition axis_candidates ::
  "(coordinate \<Rightarrow> (int \<times> weight) list) \<Rightarrow> (int \<Rightarrow> int \<Rightarrow> error + int)
     \<Rightarrow> coordinate \<Rightarrow> coordinate \<Rightarrow> nat \<Rightarrow> error + candidate list" where
  "axis_candidates interpolation_function index_fixer ci ce sz =
     collect (map (\<lambda>((index, _), (index_e, weight_e)).
        case index_fixer index (int sz) of
          Inl e \<Rightarrow> Inl e
        | Inr fixed \<Rightarrow> Inr (fixed, 0 \<le> index_e \<and> index_e < int sz, weight_e))
       (zip (interpolation_function ci) (interpolation_function ce)))"

text \<open>
  The body of the loop over \<^verbatim>\<open>itertools.product(*indices)\<close>, at one output element:
  \<^verbatim>\<open>
  indices, validities, weights = zip(*items)
  contribution = src[index]
  if check_validity:
      all_valid = functools.reduce(operator.and_, validities)
      contribution = mx.where(all_valid, contribution, fill_value)
  weight = functools.reduce(operator.mul, weights)
  if not (isinstance(weight, (float, int)) and weight == 1):
      contribution = contribution * weight
  \<close>
\<close>

definition contribution ::
  "array \<Rightarrow> nat list \<Rightarrow> fill \<Rightarrow> bool \<Rightarrow> candidate list \<Rightarrow> error + tval" where
  "contribution src rest fill_value check_validity items =
     (let indices = map fst items;
          validities = map (\<lambda>c. fst (snd c)) items;
          weights = map (\<lambda>c. snd (snd c)) items
      in and_then (gather src indices rest) (\<lambda>gathered.
         and_then (if check_validity
                   then and_then (reduce (\<and>) validities) (\<lambda>all_valid.
                          Inr (mx_where all_valid gathered (fill_tval fill_value)))
                   else Inr gathered) (\<lambda>masked.
         and_then (reduce weight_mul weights) (\<lambda>weight.
           Inr (if \<not> is_python_one weight then times_weight masked weight else masked)))))"

text \<open>
  One element of the running sum of \<^verbatim>\<open>_extract_coordinates\<close>: \<open>cs\<close> holds, for each
  coordinate axis, the two elements of its coordinate array that this output element
  reads (see \<open>axis_candidates\<close>) and the size of the axis.
  \<^verbatim>\<open>
  indices = []
  for ci, size in zip(coordinates, src.shape[start_axis:]):
      indices.append([... for index, weight in interpolation_function(ci)])
  outputs = []
  for items in itertools.product(*indices):
      ...
      outputs.append(contribution)
  result = functools.reduce(operator.add, outputs)
  \<close>
  With no coordinate axis the unpacking of \<^verbatim>\<open>zip(*items)\<close> raises \<^verbatim>\<open>ValueError\<close>.
\<close>

definition accumulate ::
  "array \<Rightarrow> (coordinate \<times> coordinate \<times> nat) list \<Rightarrow> nat list
     \<Rightarrow> (coordinate \<Rightarrow> (int \<times> weight) list) \<Rightarrow> (int \<Rightarrow> int \<Rightarrow> error + int)
     \<Rightarrow> fill \<Rightarrow> bool \<Rightarrow> error + tval" where
  "accumulate src cs rest interpolation_function index_fixer fill_value check_validity =
     (if cs = [] then Inl ValueError
      else
        and_then (collect (map (\<lambda>(ci, ce, sz).
                    axis_candidates interpolation_function index_fixer ci ce sz) cs)) (\<lambda>indices.
        and_then (collect (map (contribution src rest fill_value check_validity)
                    (product_lists indices))) (\<lambda>outputs.
        reduce tval_add outputs)))"

text \<open>
  One element of the result:
  \<^verbatim>\<open>
  if _is_integer(src) and not _is_integer(result):
      result = mx.round(result)
  return result.astype(src.dtype)
  \<close>
\<close>

definition extract_element ::
  "array \<Rightarrow> (coordinate \<times> coordinate \<times> nat) list \<Rightarrow> nat list
     \<Rightarrow> (coordinate \<Rightarrow> (int \<times> weight) list) \<Rightarrow> (int \<Rightarrow> int \<Rightarrow> error + int)
     \<Rightarrow> fill \<Rightarrow> bool \<Rightarrow> error + real" where
  "extract_element src cs rest interpolation_function index_fixer fill_value check_validity =
     and_then (accumulate src cs rest interpolation_function index_fixer fill_value
                 check_validity) (\<lambda>result.
       let rounded = (if is_integer src \<and> fst result \<noteq> KInt
                      then mx_round (snd result) else snd result)
       in Inr (astype (dtype src) rounded))"

text \<open>
  The shapes of \<^verbatim>\<open>_extract_coordinates\<close> (with \<^verbatim>\<open>start_axis=0\<close>, the value at both call
  sites).  The coordinate arrays are paired with the leading axes of \<open>src\<close> by \<^verbatim>\<open>zip\<close>.
  The gathered block \<^verbatim>\<open>src[index]\<close> has the common shape of the paired coordinate arrays
  followed by the axes of \<open>src\<close> that are not indexed.  It is broadcast against the
  expanded mask of every axis when \<^verbatim>\<open>check_validity\<close> is set, and against the expanded
  weight of every axis whose weights are arrays (the linear kernel; the nearest kernel's
  weight is the Python scalar \<open>1\<close>, and the product is skipped).  Whether the weights of a
  kernel are arrays does not depend on the element; it is read off at the element \<open>0\<close>.
\<close>

definition array_weighted :: "(coordinate \<Rightarrow> (int \<times> weight) list) \<Rightarrow> array \<Rightarrow> bool" where
  "array_weighted interpolation_function c \<longleftrightarrow>
     list_ex (\<lambda>iw. case snd iw of PyScalar a \<Rightarrow> False | MxArray k y \<Rightarrow> True)
       (interpolation_function (dtype c, 0))"

definition gathered_shape :: "array \<Rightarrow> array list \<Rightarrow> nat list option" where
  "gathered_shape src cs =
     (case broadcast_all (map shape cs) of
        None \<Rightarrow> None
      | Some bshape \<Rightarrow> Some (bshape @ drop (length cs) (shape src)))"

definition output_shape ::
  "array \<Rightarrow> nat list \<Rightarrow> array list \<Rightarrow> (coordinate \<Rightarrow> (int \<times> weight) list) \<Rightarrow> bool
     \<Rightarrow> nat list option" where
  "output_shape src gshape cs interpolation_function check_validity =
     broadcast_all (gshape # map (\<lambda>c. shape (expand (ndim src) c))
       (filter (\<lambda>c. check_validity \<or> array_weighted interpolation_function c) cs))"

text \<open>
  The multi-index at which an array of shape \<open>shp\<close> is read for the element \<open>p\<close> of a
  shape it broadcasts to.
\<close>

definition broadcast_index :: "nat list \<Rightarrow> nat list \<Rightarrow> nat list" where
  "broadcast_index shp p =
     map2 (\<lambda>n i. if n = 1 then 0 else i) shp (drop (length p - length shp) p)"

text \<open>
  What the output element \<open>p\<close> reads, for a gathered block of shape \<open>gshape\<close>: for each
  coordinate axis the element of the coordinate array under the gather, the element under
  the expanded mask and weight, and the size of the axis; and the multi-index into the
  axes of \<open>src\<close> that are not indexed.
\<close>

definition element_inputs ::
  "array \<Rightarrow> array list \<Rightarrow> nat list \<Rightarrow> nat list \<Rightarrow> (coordinate \<times> coordinate \<times> nat) list" where
  "element_inputs src coordinates gshape p =
     (let paired = zip coordinates (shape src);
          q = broadcast_index gshape p
      in map (\<lambda>(c, sz).
           ((dtype c, broadcast_at c (take (length gshape - (ndim src - length paired)) q)),
            (dtype c, broadcast_at (expand (ndim src) c) p),
            sz)) paired)"

definition element_rest :: "array \<Rightarrow> array list \<Rightarrow> nat list \<Rightarrow> nat list \<Rightarrow> nat list" where
  "element_rest src coordinates gshape p =
     drop (length gshape - (ndim src - length (zip coordinates (shape src))))
       (broadcast_index gshape p)"

text \<open>
  \<^verbatim>\<open>_extract_coordinates\<close>.  Every array operation between the gather and the final cast
  is elementwise, so an element of the result is computed from the elements of the
  coordinate arrays that it reads.  A failed broadcast raises \<^verbatim>\<open>ValueError\<close>.
\<close>

definition value_of :: "error + real \<Rightarrow> real" where
  "value_of r = (case r of Inl e \<Rightarrow> 0 | Inr x \<Rightarrow> x)"

definition extract_coordinates ::
  "array \<Rightarrow> array list \<Rightarrow> (coordinate \<Rightarrow> (int \<times> weight) list)
     \<Rightarrow> (int \<Rightarrow> int \<Rightarrow> error + int) \<Rightarrow> fill \<Rightarrow> bool \<Rightarrow> error + array" where
  "extract_coordinates src coordinates interpolation_function index_fixer fill_value check_validity =
     (let cs = map fst (zip coordinates (shape src))
      in if cs = [] then Inl ValueError
         else
           case gathered_shape src cs of
             None \<Rightarrow> Inl ValueError
           | Some gshape \<Rightarrow>
               case output_shape src gshape cs interpolation_function check_validity of
                 None \<Rightarrow> Inl ValueError
               | Some out_shape \<Rightarrow>
                   let element = (\<lambda>p. extract_element src
                            (element_inputs src coordinates gshape p)
                            (element_rest src coordinates gshape p)
                            interpolation_function index_fixer fill_value check_validity)
                   in case collect (map element (positions out_shape)) of
                        Inl e \<Rightarrow> Inl e
                      | Inr vs \<Rightarrow>
                          Inr \<lparr>dtype = dtype src, shape = out_shape,
                               elems = (\<lambda>p. value_of (element p))\<rparr>)"

section \<open>Public operation \<^verbatim>\<open>map_coordinates\<close>\<close>

text \<open>Python's \<^verbatim>\<open>int(fill_value)\<close> under \<^verbatim>\<open>isinstance(fill_value, (int, float))\<close>.\<close>

fun coerce_fill :: "bool \<Rightarrow> fill \<Rightarrow> fill" where
  "coerce_fill True (PyInt i) = PyInt i"
| "coerce_fill True (PyFloat x) = PyInt (truncate x)"
| "coerce_fill b f = f"

definition map_coordinates ::
  "array \<Rightarrow> array list \<Rightarrow> int \<Rightarrow> string \<Rightarrow> fill \<Rightarrow> error + array" where
  "map_coordinates input coordinates order fill_mode fill_value =
     (let fill_value' = coerce_fill (is_integer input) fill_value
      in if length coordinates \<noteq> length (shape input) then Inl ValueError
         else
           case INDEX_FIXERS fill_mode of
             None \<Rightarrow> Inl ValueError
           | Some index_fixer \<Rightarrow>
               if order = 0 then
                 extract_coordinates input coordinates nearest_indices_and_weights
                   index_fixer fill_value' (fill_mode = ''constant'')
               else if order = 1 then
                 extract_coordinates input coordinates linear_indices_and_weights
                   index_fixer fill_value' (fill_mode = ''constant'')
               else Inl NotImplementedError)"

section \<open>AffineCoordinateGenerator and the public operations on images\<close>

definition AFFINE_TRANSFORM_INTERPOLATIONS ::
  "string \<Rightarrow> (coordinate \<Rightarrow> (int \<times> weight) list) option" where
  "AFFINE_TRANSFORM_INTERPOLATIONS interpolation =
     (if interpolation = ''nearest'' then Some nearest_indices_and_weights
      else if interpolation = ''bilinear'' then Some linear_indices_and_weights
      else None)"

definition AFFINE_TRANSFORM_FILL_MODES :: "string list" where
  "AFFINE_TRANSFORM_FILL_MODES = [''constant'', ''nearest'', ''wrap'', ''mirror'', ''reflect'']"

text \<open>
  The coefficients of the transform,
  \<^verbatim>\<open>
  a0, a1, a2, b0, b1, b2, c0, c1 = [
      t.reshape(-1, 1, 1)
      for t in transform.T.reshape(-1).reshape(8, -1).split(8)]
  \<close>
  \<open>transform_flat t k\<close> is element \<open>k\<close> of \<^verbatim>\<open>transform.T.reshape(-1)\<close> for a transform of
  rank 1 or 2; coefficient \<open>j\<close> of row \<open>b\<close> is element \<open>j * m + b\<close> of it, where \<open>m\<close> is the
  number of elements of the transform divided by 8.
\<close>

definition transform_flat :: "array \<Rightarrow> nat \<Rightarrow> real" where
  "transform_flat t k =
     (case shape t of
        [n] \<Rightarrow> elems t [k]
      | [r, c] \<Rightarrow> elems t [k mod r, k div r]
      | _ \<Rightarrow> 0)"

text \<open>
  \<^verbatim>\<open>mx.array(xs)\<close> of a list of Python floats, \<^verbatim>\<open>mx.arange(n).reshape(-1, 1, 1)\<close>, and
  \<^verbatim>\<open>a.squeeze(0)\<close>.
\<close>

definition mx_array :: "real list \<Rightarrow> array" where
  "mx_array xs =
     \<lparr>dtype = Float32, shape = [length xs],
      elems = (\<lambda>p. case p of [j] \<Rightarrow> xs ! j | _ \<Rightarrow> 0)\<rparr>"

definition batch_index :: "nat \<Rightarrow> array" where
  "batch_index n =
     \<lparr>dtype = Int32, shape = [n, 1, 1], elems = (\<lambda>p. case p of [] \<Rightarrow> 0 | b # _ \<Rightarrow> real b)\<rparr>"

definition squeeze0 :: "array \<Rightarrow> array" where
  "squeeze0 a = \<lparr>dtype = dtype a, shape = tl (shape a), elems = (\<lambda>p. elems a (0 # p))\<rparr>"

text \<open>
  The coefficient \<open>j\<close> of row \<open>b\<close> of the transform, the denominator
  \<^verbatim>\<open>k = c0 * x_target + c1 * y_target + 1\<close> and the two source coordinate arrays
  \<^verbatim>\<open>
  x_src = (a0 * x_target + a1 * y_target + a2) / k
  y_src = (b0 * x_target + b1 * y_target + b2) / k
  \<close>
  The broadcast products have the shape \<open>[m, H, W]\<close>, where \<open>(H, W)\<close> is the target size;
  their element at \<open>[b, y, x]\<close> is written out.  A division involving an integer array is
  a floating-point array.  Where the denominator is zero the runtime's quotient is an
  infinity or NaN, which the reals do not have: \<open>mx_divide\<close> carries \<open>0\<close> there, and the
  properties below concern transforms whose denominator does not vanish.
\<close>

definition mx_divide :: "real \<Rightarrow> real \<Rightarrow> real" where
  "mx_divide a b = (if b = 0 then 0 else a / b)"

definition coefficient :: "array \<Rightarrow> nat \<Rightarrow> nat \<Rightarrow> real" where
  "coefficient transform j b = transform_flat transform (j * (prod_list (shape transform) div 8) + b)"

definition k_denominator :: "array \<Rightarrow> nat \<Rightarrow> nat \<Rightarrow> nat \<Rightarrow> real" where
  "k_denominator transform b y x =
     coefficient transform 6 b * real x + coefficient transform 7 b * real y + 1"

definition float_dtype :: "array \<Rightarrow> dtype" where
  "float_dtype transform =
     (if kind_of (dtype transform) = KFloat then dtype transform else Float32)"

definition x_src :: "array \<Rightarrow> nat \<times> nat \<Rightarrow> array" where
  "x_src transform target_size =
     \<lparr>dtype = float_dtype transform,
      shape = [prod_list (shape transform) div 8, fst target_size, snd target_size],
      elems = (\<lambda>p. case p of
         [b, y, x] \<Rightarrow>
           mx_divide (coefficient transform 0 b * real x + coefficient transform 1 b * real y
              + coefficient transform 2 b) (k_denominator transform b y x)
       | _ \<Rightarrow> 0)\<rparr>"

definition y_src :: "array \<Rightarrow> nat \<times> nat \<Rightarrow> array" where
  "y_src transform target_size =
     \<lparr>dtype = float_dtype transform,
      shape = [prod_list (shape transform) div 8, fst target_size, snd target_size],
      elems = (\<lambda>p. case p of
         [b, y, x] \<Rightarrow>
           mx_divide (coefficient transform 3 b * real x + coefficient transform 4 b * real y
              + coefficient transform 5 b) (k_denominator transform b y x)
       | _ \<Rightarrow> 0)\<rparr>"

text \<open>
  \<^verbatim>\<open>
  def _affine_transform(src, transform, target_size, interpolation_function,
                        index_fixer, fill_value=0, check_validity=True):
      y_target = mx.arange(target_size[0]).reshape(1, -1, 1)
      x_target = mx.arange(target_size[1]).reshape(1, 1, -1)
      a0, a1, a2, b0, b1, b2, c0, c1 = [...]
      k = c0 * x_target + c1 * y_target + 1
      x_src = (a0 * x_target + a1 * y_target + a2) / k
      y_src = (b0 * x_target + b1 * y_target + b2) / k
      if src.ndim == 3:
          indices = [y_src.squeeze(0), x_src.squeeze(0)]
      else:
          indices = [mx.arange(len(src)).reshape(-1, 1, 1), y_src, x_src]
      return _extract_coordinates(src=src, coordinates=indices, ...)
  \<close>
  The split into eight coefficients fails unless the transform has a positive multiple of
  eight elements; \<^verbatim>\<open>squeeze(0)\<close> fails unless the leading axis has length 1.
\<close>

definition affine_transform_inner ::
  "array \<Rightarrow> array \<Rightarrow> nat \<times> nat \<Rightarrow> (coordinate \<Rightarrow> (int \<times> weight) list)
     \<Rightarrow> (int \<Rightarrow> int \<Rightarrow> error + int) \<Rightarrow> fill \<Rightarrow> bool \<Rightarrow> error + array" where
  "affine_transform_inner src transform target_size interpolation_function index_fixer
       fill_value check_validity =
     (let total = prod_list (shape transform)
      in if total = 0 \<or> total mod 8 \<noteq> 0 then Inl ValueError
         else if ndim src = 3 then
           (if total div 8 \<noteq> 1 then Inl ValueError
            else extract_coordinates src
                   [squeeze0 (y_src transform target_size), squeeze0 (x_src transform target_size)]
                   interpolation_function index_fixer fill_value check_validity)
         else
           (case shape src of
              [] \<Rightarrow> Inl TypeError
            | n # _ \<Rightarrow>
                extract_coordinates src
                  [batch_index n, y_src transform target_size, x_src transform target_size]
                  interpolation_function index_fixer fill_value check_validity))"

text \<open>
  The two layout changes of the public operations:
  \<^verbatim>\<open>
  if data_format == "channels_first":
      image = (image.transpose(0, 2, 3, 1) if image.ndim == 4
               else image.transpose(1, 2, 0))
  ...
  if data_format == "channels_first":
      result = (result.transpose(0, 3, 1, 2) if image.ndim == 4
                else result.transpose(2, 0, 1))
  \<close>
\<close>

definition to_channels_last :: "string \<Rightarrow> array \<Rightarrow> array" where
  "to_channels_last data_format img =
     (if data_format = ''channels_first''
      then (if ndim img = 4 then transpose_axes [0, 2, 3, 1] img
            else transpose_axes [1, 2, 0] img)
      else img)"

definition from_channels_last :: "string \<Rightarrow> array \<Rightarrow> array \<Rightarrow> array" where
  "from_channels_last data_format img result =
     (if data_format = ''channels_first''
      then (if ndim img = 4 then transpose_axes [0, 3, 1, 2] result
            else transpose_axes [2, 0, 1] result)
      else result)"

definition affine_transform ::
  "array \<Rightarrow> array \<Rightarrow> string \<Rightarrow> string \<Rightarrow> fill \<Rightarrow> string \<Rightarrow> error + array" where
  "affine_transform img transform interpolation fill_mode fill_value data_format =
     (case AFFINE_TRANSFORM_INTERPOLATIONS interpolation of
        None \<Rightarrow> Inl ValueError
      | Some interpolation_function \<Rightarrow>
          if fill_mode \<notin> set AFFINE_TRANSFORM_FILL_MODES then Inl ValueError
          else if ndim img \<notin> {3, 4} then Inl ValueError
          else if ndim transform \<notin> {1, 2} then Inl ValueError
          else
            let img' = to_channels_last data_format img;
                target_size = (if ndim img' = 3
                               then (shape img' ! 0, shape img' ! 1)
                               else (shape img' ! 1, shape img' ! 2))
            in case INDEX_FIXERS fill_mode of
                 None \<Rightarrow> Inl KeyError
               | Some index_fixer \<Rightarrow>
                   and_then (affine_transform_inner img' transform target_size
                               interpolation_function index_fixer fill_value
                               (fill_mode = ''constant''))
                     (\<lambda>result. Inr (from_channels_last data_format img' result)))"

text \<open>
  \<^verbatim>\<open>
  def resize(image, size, interpolation="bilinear", antialias=False,
             data_format="channels_last"):
      if antialias:
          raise NotImplementedError(...)
      if interpolation not in AFFINE_TRANSFORM_INTERPOLATIONS.keys():
          raise ValueError(...)
      ...
      *_, H, W, C = image.shape
      transform = mx.array([H / size[0], 0, 0, 0, W / size[1], 0, 0, 0])
      result = _affine_transform(src=image, transform=transform, target_size=size,
          interpolation_function=AFFINE_TRANSFORM_INTERPOLATIONS[interpolation],
          index_fixer=_INDEX_FIXERS["constant"], fill_value=0, check_validity=False)
  \<close>
  Python's \<^verbatim>\<open>/\<close> raises \<^verbatim>\<open>ZeroDivisionError\<close> on a zero target size.
\<close>

definition resize ::
  "array \<Rightarrow> nat \<times> nat \<Rightarrow> string \<Rightarrow> bool \<Rightarrow> string \<Rightarrow> error + array" where
  "resize img sz interpolation antialias data_format =
     (if antialias then Inl NotImplementedError
      else
        case AFFINE_TRANSFORM_INTERPOLATIONS interpolation of
          None \<Rightarrow> Inl ValueError
        | Some interpolation_function \<Rightarrow>
            if ndim img \<notin> {3, 4} then Inl ValueError
            else
              let img' = to_channels_last data_format img;
                  H = shape img' ! (ndim img' - 3);
                  W = shape img' ! (ndim img' - 2)
              in if fst sz = 0 \<or> snd sz = 0 then Inl ZeroDivisionError
                 else
                   let transform = mx_array [real H / real (fst sz), 0, 0, 0,
                                             real W / real (snd sz), 0, 0, 0]
                   in case INDEX_FIXERS ''constant'' of
                        None \<Rightarrow> Inl KeyError
                      | Some index_fixer \<Rightarrow>
                          and_then (affine_transform_inner img' transform sz
                                      interpolation_function index_fixer (PyInt 0) False)
                            (\<lambda>result. Inr (from_channels_last data_format img' result)))"

section \<open>Vocabulary of the properties\<close>

text \<open>The numeric value of a weight.\<close>

fun weight_value :: "weight \<Rightarrow> real" where
  "weight_value (PyScalar a) = of_int a"
| "weight_value (MxArray k y) = y"

text \<open>
  A value of an element type: one that the cast to that type leaves unchanged.  An array
  is well formed when each of its elements is a value of its element type.
\<close>

definition representable :: "dtype \<Rightarrow> real \<Rightarrow> bool" where
  "representable d x \<longleftrightarrow> astype d x = x"

definition well_formed :: "array \<Rightarrow> bool" where
  "well_formed a \<longleftrightarrow> list_all (\<lambda>p. representable (dtype a) (elems a p)) (positions (shape a))"

text \<open>
  An axis input whose two coordinate elements are the same integer inside the axis and
  the \<^verbatim>\<open>int32\<close> range, for a fixer that leaves it in place and sends its upper neighbour
  to some index of the axis.
\<close>

definition integral_in_range ::
  "(int \<Rightarrow> int \<Rightarrow> error + int) \<Rightarrow> coordinate \<times> coordinate \<times> nat \<Rightarrow> bool" where
  "integral_in_range fx c \<longleftrightarrow>
     (let x = snd (fst c); i = \<lfloor>x\<rfloor>; n = int (snd (snd c))
      in fst (snd c) = fst c \<and> x = of_int i \<and> 0 \<le> i \<and> i < n \<and> i + 1 < 2 ^ 31
         \<and> fx i n = Inr i
         \<and> (case fx (i + 1) n of Inl e \<Rightarrow> False | Inr u \<Rightarrow> 0 \<le> u \<and> u < n))"

section \<open>Example arrays\<close>

text \<open>
  The one-dimensional source \<^verbatim>\<open>[10, 20, 30]\<close> of element type \<^verbatim>\<open>int32\<close> and a coordinate array
  with the single element \<open>x\<close>, on which the theorems below are instantiated.
\<close>

definition example_source :: array where
  "example_source =
     \<lparr>dtype = Int32, shape = [3], elems = (\<lambda>p. case p of [i] \<Rightarrow> [10, 20, 30] ! i | _ \<Rightarrow> 0)\<rparr>"
definition example_coordinate :: "real \<Rightarrow> array" where
  "example_coordinate x = \<lparr>dtype = Float32, shape = [1], elems = (\<lambda>p. x)\<rparr>"

section \<open>Properties of the index fixers\<close>

lemma remainder_nonzero: "b \<noteq> 0 \<Longrightarrow> remainder a b = Inr (a mod b)"
  by (simp add: remainder_def)

lemma clip_in_range:
  assumes "0 < sz"
  shows "0 \<le> clip index 0 (sz - 1) \<and> clip index 0 (sz - 1) < sz"
  using assms by (simp add: clip_def min_def max_def)

lemma tri_wave_bound:
  fixes m s :: int
  assumes "0 \<le> m" and "m < 2 * s"
  shows "0 \<le> abs (m - s) \<and> abs (m - s) \<le> s"
  using assms by arith

lemma odd_not_double:
  fixes a k :: int
  assumes "odd a"
  shows "a \<noteq> 2 * k"
  using assms by auto

lemma mirror_value:
  assumes "1 < sz"
  shows "mirror_index_fixer index sz = Inr (abs ((index + (sz - 1)) mod (2 * (sz - 1)) - (sz - 1)))"
  using assms by (simp add: mirror_index_fixer_def Let_def remainder_def)

lemma mirror_in_range:
  assumes "1 < sz"
  shows "\<exists>r. mirror_index_fixer index sz = Inr r \<and> 0 \<le> r \<and> r < sz"
proof -
  let ?s = "sz - 1"
  let ?m = "(index + ?s) mod (2 * ?s)"
  have pos: "0 < 2 * ?s" using assms by simp
  have lo: "0 \<le> ?m" using pos by (rule pos_mod_sign)
  have hi: "?m < 2 * ?s" using pos by (rule pos_mod_bound)
  have "0 \<le> abs (?m - ?s) \<and> abs (?m - ?s) \<le> ?s"
    using lo hi by (rule tri_wave_bound)
  then have "0 \<le> abs (?m - ?s) \<and> abs (?m - ?s) < sz" by simp
  then show ?thesis using mirror_value [OF assms] by simp
qed

lemma mirror_odd_period:
  assumes "0 < sz"
  shows "\<exists>m. mirror_index_fixer (2 * index + 1) (2 * sz + 1) = Inr m
             \<and> odd m \<and> 1 \<le> m \<and> m \<le> 2 * sz - 1"
proof -
  let ?s = "2 * sz"
  let ?r = "(2 * index + 1 + ?s) mod (2 * ?s)"
  have pos: "0 < 2 * ?s" using assms by simp
  have lo: "0 \<le> ?r" using pos by (rule pos_mod_sign)
  have hi: "?r < 2 * ?s" using pos by (rule pos_mod_bound)
  have "even (2 * ?s)" by simp
  then have "even ?r = even (2 * index + 1 + ?s)"
    by (metis dvd_mod_iff)
  then have odd_r: "odd ?r" by simp
  then have odd_d: "odd (?r - ?s)" by simp
  then have odd_a: "odd (abs (?r - ?s))" by simp
  have le: "0 \<le> abs (?r - ?s) \<and> abs (?r - ?s) \<le> ?s"
    using lo hi by (rule tri_wave_bound)
  have "abs (?r - ?s) \<noteq> ?s"
    using odd_a by (rule odd_not_double)
  then have bound: "abs (?r - ?s) \<le> ?s - 1" using le by simp
  have "abs (?r - ?s) \<noteq> 0" using odd_a by (metis even_zero)
  then have low: "1 \<le> abs (?r - ?s)" using le by simp
  have "mirror_index_fixer (2 * index + 1) (2 * sz + 1) = Inr (abs (?r - ?s))"
    using assms by (simp add: mirror_index_fixer_def Let_def remainder_def)
  then show ?thesis using odd_a low bound by simp
qed

lemma reflect_in_range:
  assumes "0 < sz"
  shows "\<exists>r. reflect_index_fixer index sz = Inr r \<and> 0 \<le> r \<and> r < sz"
proof -
  from mirror_odd_period [OF assms, of index] obtain m where
    m: "mirror_index_fixer (2 * index + 1) (2 * sz + 1) = Inr m"
    and "1 \<le> m" and "m \<le> 2 * sz - 1"
    by blast
  then have "0 \<le> (m - 1) div 2 \<and> (m - 1) div 2 < sz" by linarith
  then show ?thesis using m by (simp add: reflect_index_fixer_def)
qed

lemma wrap_in_range:
  assumes "0 < sz"
  shows "\<exists>r. remainder index sz = Inr r \<and> 0 \<le> r \<and> r < sz"
  using assms by (simp add: remainder_def)

lemma index_fixers_in_range:
  assumes "INDEX_FIXERS fill_mode = Some f" and "0 < sz"
    and "fill_mode = ''mirror'' \<longrightarrow> 1 < sz"
  shows "\<exists>r. f index sz = Inr r \<and> 0 \<le> r \<and> r < sz"
proof -
  consider (c) "fill_mode = ''constant''" | (n) "fill_mode = ''nearest''"
    | (w) "fill_mode = ''wrap''" | (m) "fill_mode = ''mirror''" | (r) "fill_mode = ''reflect''"
    using assms(1) by (auto simp: INDEX_FIXERS_def split: if_splits)
  then show ?thesis
  proof cases
    case c
    then have "f = (\<lambda>index sz. Inr (clip index 0 (sz - 1)))"
      using assms(1) by (simp add: INDEX_FIXERS_def)
    then show ?thesis using clip_in_range [OF assms(2)] by simp
  next
    case n
    then have "f = (\<lambda>index sz. Inr (clip index 0 (sz - 1)))"
      using assms(1) by (simp add: INDEX_FIXERS_def)
    then show ?thesis using clip_in_range [OF assms(2)] by simp
  next
    case w
    then have "f = (\<lambda>index sz. remainder index sz)"
      using assms(1) by (simp add: INDEX_FIXERS_def)
    then show ?thesis using wrap_in_range [OF assms(2)] by simp
  next
    case m
    then have "f = mirror_index_fixer"
      using assms(1) by (simp add: INDEX_FIXERS_def)
    then show ?thesis using mirror_in_range m assms(3) by simp
  next
    case r
    then have "f = reflect_index_fixer"
      using assms(1) by (simp add: INDEX_FIXERS_def)
    then show ?thesis using reflect_in_range [OF assms(2)] by simp
  qed
qed

text \<open>
  Claim C3.  Every index fixer is to be total and, for a positive size, to return an index
  in \<open>[0, size)\<close>, the mirror fixer also at size 1.  Lemma \<open>index_fixers_in_range\<close>
  above proves this for every fixer and every positive size with one exception, which the
  code misses: at size 1 the mirror fixer has the half-wavelength \<open>s = 0\<close> and takes a
  remainder modulo \<open>2 * s = 0\<close>, so it returns no index at all.
\<close>

theorem mirror_fixer_undefined_at_size_one:
  "\<exists>f. INDEX_FIXERS ''mirror'' = Some f \<and> f 5 1 = Inl UndefinedRemainder"
  by (simp add: INDEX_FIXERS_def mirror_index_fixer_def remainder_def)

text \<open>
  Claim C4.  The wrap fixer is the true mathematical modulo: for every integer index and
  positive size its result \<open>r\<close> is defined, lies in \<open>[0, size)\<close> (so it is non-negative
  also for a negative index), differs from the index by a multiple of the size, and is
  the same for \<open>index + k * size\<close>, for every integer \<open>k\<close>.
\<close>

theorem wrap_true_modulo:
  assumes "0 < sz"
  shows "\<exists>f r. INDEX_FIXERS ''wrap'' = Some f \<and> f index sz = Inr r
           \<and> 0 \<le> r \<and> r < sz \<and> sz dvd (index - r)
           \<and> f (index + k * sz) sz = Inr r"
proof -
  have "sz dvd (index - index mod sz)"
    by (simp add: minus_mod_eq_mult_div)
  then show ?thesis
    using assms by (simp add: INDEX_FIXERS_def remainder_def)
qed

theorem wrap_true_modulo_witness:
  "(0::int) < 3 \<and> (\<exists>f. INDEX_FIXERS ''wrap'' = Some f \<and> f (- 7) 3 = Inr 2
      \<and> f (- 7 + 5 * 3) 3 = Inr 2)"
proof -
  have pos: "(0::int) < 3" by simp
  from wrap_true_modulo [OF pos, of "- 7" 5] obtain f r where
    f: "INDEX_FIXERS ''wrap'' = Some f" and v: "f (- 7) 3 = Inr r"
    and r: "0 \<le> r" "r < 3" "3 dvd (- 7 - r)" and p: "f (- 7 + 5 * 3) 3 = Inr r"
    by blast
  have "r = 2" using r by presburger
  then show ?thesis using pos f v p by blast
qed



section \<open>Properties of the runtime primitives\<close>

lemma truncate_of_int: "truncate (of_int z) = z"
  by (simp add: truncate_def)

lemma mx_round_integral: "mx_round x \<in> \<int>"
  by (simp add: mx_round_def Let_def)

lemma mx_round_nearest: "\<bar>mx_round x - x\<bar> \<le> 1 / 2"
  unfolding mx_round_def Let_def by (auto; linarith)

lemma mx_round_of_int: "mx_round (of_int z) = of_int z"
  by (simp add: mx_round_def Let_def)

lemma astype_integral: "is_integer_dtype d \<Longrightarrow> astype d x \<in> \<int>"
  by (simp add: astype_def)

lemma ceiling_minus_one: "\<lceil>- 1 :: real\<rceil> = - 1"
  using ceiling_of_int [of "- 1"] by simp

lemma wrap_in_range_id:
  assumes s: "is_signed d" and lo: "- (2 ^ (bits d - 1)) \<le> z" and hi: "z < 2 ^ (bits d - 1)"
    and b: "bits d \<noteq> 0"
  shows "wrap d z = z"
proof -
  have p: "(2::int) ^ bits d = 2 * 2 ^ (bits d - 1)"
    using b by (cases "bits d") simp_all
  have "(z + 2 ^ (bits d - 1)) mod 2 ^ bits d = z + 2 ^ (bits d - 1)"
    using lo hi p by (intro mod_pos_pos_trivial) linarith+
  then show ?thesis using s by (simp add: wrap_def)
qed

lemma wrap_Int32: "- 2147483648 \<le> z \<Longrightarrow> z < 2147483648 \<Longrightarrow> wrap Int32 z = z"
  using wrap_in_range_id [of Int32 z] by (simp add: is_signed_def)

lemma to_int32_of_int: "- 2147483648 \<le> z \<Longrightarrow> z < 2147483648 \<Longrightarrow> to_int32 (of_int z) = z"
  by (simp add: to_int32_def truncate_def wrap_Int32)

lemma add_int32_small: "- 2147483648 \<le> a + b \<Longrightarrow> a + b < 2147483648 \<Longrightarrow> add_int32 a b = a + b"
  by (simp add: add_int32_def wrap_Int32)

lemma astype_Int32_of_int:
  "- 2147483648 \<le> z \<Longrightarrow> z < 2147483648 \<Longrightarrow> astype Int32 (of_int z) = of_int z"
  by (simp add: astype_def truncate_def wrap_Int32 is_integer_dtype_def)

lemma to_int32_numeral [simp]:
  "to_int32 0 = 0" "to_int32 1 = 1" "to_int32 (- 1) = - 1" "to_int32 2 = 2"
  using to_int32_of_int [of 0] to_int32_of_int [of 1] to_int32_of_int [of "- 1"]
    to_int32_of_int [of 2]
  by simp_all

lemma add_int32_numeral [simp]:
  "add_int32 0 1 = 1" "add_int32 1 1 = 2" "add_int32 (- 1) 1 = 0" "add_int32 2 1 = 3"
  by (simp_all add: add_int32_small)

lemma astype_Int32_numeral [simp]:
  "astype Int32 0 = 0" "astype Int32 2 = 2" "astype Int32 (- 2) = - 2" "astype Int32 10 = 10"
  "astype Int32 20 = 20" "astype Int32 30 = 30" "astype Int32 22 = 22"
  using astype_Int32_of_int [of 0] astype_Int32_of_int [of 2] astype_Int32_of_int [of "- 2"]
    astype_Int32_of_int [of 10] astype_Int32_of_int [of 20] astype_Int32_of_int [of 30]
    astype_Int32_of_int [of 22]
  by simp_all

lemma promote_KFloat [simp]: "promote k KFloat = KFloat" "promote KFloat k = KFloat"
  by (cases k; simp)+

lemma collect_Inr: "collect rs = Inr xs \<Longrightarrow> rs = map Inr xs"
proof (induction rs arbitrary: xs)
  case Nil
  then show ?case by simp
next
  case (Cons r rs)
  then show ?case
    by (cases r) (auto split: sum.splits)
qed

lemma collect_map_Inr: "collect (map Inr xs) = Inr xs"
  by (induction xs) auto

lemma and_then_Inr: "and_then r f = Inr y \<Longrightarrow> \<exists>x. r = Inr x \<and> f x = Inr y"
  by (cases r) (auto simp: and_then_def)

lemma and_then_simps [simp]: "and_then (Inr x) f = f x" "and_then (Inl e) f = Inl e"
  by (simp_all add: and_then_def)

text \<open>The definitions that the evaluation of the resampler on a concrete input unfolds.\<close>

lemmas eval_defs = map_coordinates_def extract_coordinates_def extract_element_def accumulate_def
  contribution_def axis_candidates_def gather_def INDEX_FIXERS_def clip_def
  linear_indices_and_weights_def nearest_indices_and_weights_def mx_floor_def mx_round_def
  is_integer_def is_integer_dtype_def kind_of_def
  broadcast_at_def broadcast_shapes_def broadcast_dim_def pad_left_def ndim_def
  positions_def mx_where_def tval_add_def value_of_def Let_def
  output_shape_def gathered_shape_def element_inputs_def element_rest_def broadcast_index_def
  expand_def array_weighted_def
  remainder_def mirror_index_fixer_def reflect_index_fixer_def ceiling_minus_one

section \<open>Properties of the public operations\<close>

text \<open>
  Claim C9.  For every image, size, interpolation and data format, \<^verbatim>\<open>resize\<close> with
  \<^verbatim>\<open>antialias\<close> set fails with \<^verbatim>\<open>NotImplementedError\<close>: the check is the first step, no other
  argument is examined and no array is produced.
\<close>

theorem resize_antialias_not_supported:
  "resize img sz interpolation True data_format = Inl NotImplementedError"
  by (simp add: resize_def)

text \<open>
  Claim C10.  For an input of an integer type, \<^verbatim>\<open>map_coordinates\<close> with the Python float
  \<open>x\<close> as fill value is \<^verbatim>\<open>map_coordinates\<close> with the Python int \<open>truncate x\<close>: the fill value
  is truncated toward zero (the floor of a non-negative \<open>x\<close>, the ceiling of a
  non-positive one), not rounded.
\<close>

theorem fill_value_truncated_for_integer_input:
  assumes "is_integer input"
  shows "map_coordinates input coords order fill_mode (PyFloat x)
           = map_coordinates input coords order fill_mode (PyInt (truncate x))
       \<and> (0 \<le> x \<longrightarrow> truncate x = \<lfloor>x\<rfloor>) \<and> (x \<le> 0 \<longrightarrow> truncate x = \<lceil>x\<rceil>)"
  using assms by (auto simp: map_coordinates_def truncate_def)

theorem fill_value_truncated_for_integer_input_witness:
  "is_integer example_source
   \<and> (\<exists>a. map_coordinates example_source [example_coordinate (- 1)] 0 ''constant'' (PyFloat (27 / 10)) = Inr a
          \<and> elems a [0] = 2)
   \<and> (\<exists>a. map_coordinates example_source [example_coordinate (- 1)] 1 ''constant'' (PyFloat (- (27 / 10))) = Inr a
          \<and> elems a [0] = - 2)"
proof -
  have i: "is_integer example_source" by (simp add: is_integer_def is_integer_dtype_def example_source_def)
  have e1: "map_coordinates example_source [example_coordinate (- 1)] 0 ''constant'' (PyFloat (27 / 10))
      = map_coordinates example_source [example_coordinate (- 1)] 0 ''constant'' (PyInt (truncate (27 / 10)))"
    using fill_value_truncated_for_integer_input [OF i] by blast
  have e2: "map_coordinates example_source [example_coordinate (- 1)] 1 ''constant'' (PyFloat (- (27 / 10)))
      = map_coordinates example_source [example_coordinate (- 1)] 1 ''constant'' (PyInt (truncate (- (27 / 10))))"
    using fill_value_truncated_for_integer_input [OF i] by blast
  have t: "truncate (27 / 10) = 2" "truncate (- (27 / 10)) = - 2"
    by (simp_all add: truncate_def)
  have v1: "\<exists>a. map_coordinates example_source [example_coordinate (- 1)] 0 ''constant'' (PyInt 2) = Inr a \<and> elems a [0] = 2"
    by (simp add: eval_defs example_source_def example_coordinate_def)
  have v2: "\<exists>a. map_coordinates example_source [example_coordinate (- 1)] 1 ''constant'' (PyInt (- 2)) = Inr a \<and> elems a [0] = - 2"
    by (simp add: eval_defs example_source_def example_coordinate_def)
  show ?thesis unfolding e1 e2 t using i v1 v2 by blast
qed

end
